theory Spec2Isabelle
  imports Main
begin

section \<open>The configuration registry of \<^verbatim>\<open>voice_assistant/config.py\<close>\<close>

subsection \<open>Python values and errors\<close>

text \<open>
  The attributes of \<^verbatim>\<open>Config\<close> hold strings, \<^verbatim>\<open>None\<close> (an unset environment
  variable read by \<^verbatim>\<open>os.getenv\<close>) or an integer (\<^verbatim>\<open>TTS_PORT_LOCAL\<close>).
  \<^verbatim>\<open>getattr\<close> returns any of them, so the values it returns are a tagged union.
\<close>

datatype pyval = PyNone | PyStr string | PyInt int

text \<open>
  Both \<^verbatim>\<open>raise\<close> statements of the module raise \<^verbatim>\<open>ValueError\<close> with a message;
  \<^verbatim>\<open>getattr\<close> raises \<^verbatim>\<open>AttributeError\<close> for a name the class does not have.
\<close>

datatype error = ValueError string | AttributeError string

text \<open>Truth value of a Python object, as \<^verbatim>\<open>not x\<close> tests it.\<close>

fun truthy :: "pyval \<Rightarrow> bool" where
  "truthy PyNone = False"
| "truthy (PyStr s) = (s \<noteq> [])"
| "truthy (PyInt i) = (i \<noteq> 0)"

subsection \<open>Formatting a list of strings\<close>

text \<open>
  The f-string \<^verbatim>\<open>{valid_options}\<close> formats a list of strings as Python's \<^verbatim>\<open>str\<close> of a
  list does: the \<^verbatim>\<open>repr\<close> of each element, separated by a comma and a space, in square
  brackets. \<^verbatim>\<open>repr\<close> of a string quotes it with single quotes, or with double quotes when
  the string has a single quote and no double quote; it escapes the quote character, the
  backslash and the control characters. Characters above 127 stand for the bytes of
  printable characters and are kept.
\<close>

definition hex_digit :: "nat \<Rightarrow> char" where
  "hex_digit n = ''0123456789abcdef'' ! (n mod 16)"

definition repr_char :: "char \<Rightarrow> char \<Rightarrow> string" where
  "repr_char quote ch =
     (if ch = quote \<or> ch = CHR 0x5C then [CHR 0x5C, ch]
      else if ch = CHR 0x09 then [CHR 0x5C, CHR ''t'']
      else if ch = CHR 0x0A then [CHR 0x5C, CHR ''n'']
      else if ch = CHR 0x0D then [CHR 0x5C, CHR ''r'']
      else if (of_char ch :: nat) < 32 \<or> (of_char ch :: nat) = 127
        then [CHR 0x5C, CHR ''x'', hex_digit (of_char ch div 16), hex_digit (of_char ch)]
      else [ch])"

definition repr_str :: "string \<Rightarrow> string" where
  "repr_str s =
     (let quote = (if CHR 0x27 \<in> set s \<and> CHR 0x22 \<notin> set s then CHR 0x22 else CHR 0x27)
      in [quote] @ concat (map (repr_char quote) s) @ [quote])"

fun join :: "string \<Rightarrow> string list \<Rightarrow> string" where
  "join sep [] = []"
| "join sep [x] = x"
| "join sep (x # y # ys) = x @ sep @ join sep (y # ys)"

definition str_list :: "string list \<Rightarrow> string" where
  "str_list xs = ''['' @ join '', '' (map repr_str xs) @ '']''"

subsection \<open>The registry\<close>

text \<open>
  The class \<^verbatim>\<open>Config\<close> is a namespace of class attributes: one record field for each,
  in the order of the class body. The provider selections are strings; the values read
  with \<^verbatim>\<open>os.getenv\<close> are strings or \<^verbatim>\<open>None\<close>.
\<close>

record Config =
  TRANSCRIPTION_MODEL :: string
  RESPONSE_MODEL :: string
  TTS_MODEL :: string
  PIPER_SERVER_URL :: "string option"
  PIPER_OUTPUT_FILE :: string
  OLLAMA_LLM :: string
  GROQ_LLM :: string
  OPENAI_LLM :: string
  OPENAI_API_KEY :: "string option"
  GROQ_API_KEY :: "string option"
  DEEPGRAM_API_KEY :: "string option"
  ELEVENLABS_API_KEY :: "string option"
  LOCAL_MODEL_PATH :: "string option"
  CARTESIA_API_KEY :: "string option"
  TTS_PORT_LOCAL :: int
  INPUT_AUDIO :: string

text \<open>
  The class body (lines 24 to 52): the selections and file names are constants, the
  credentials and paths are read from the process environment, a map from variable names
  to values. \<^verbatim>\<open>os.getenv\<close> of an unset variable is \<^verbatim>\<open>None\<close>.
\<close>

definition load_Config :: "(string \<rightharpoonup> string) \<Rightarrow> Config" where
  "load_Config env =
     \<lparr> TRANSCRIPTION_MODEL = ''deepgram'',
       RESPONSE_MODEL = ''openai'',
       TTS_MODEL = ''openai'',
       PIPER_SERVER_URL = env ''PIPER_SERVER_URL'',
       PIPER_OUTPUT_FILE = ''output.wav'',
       OLLAMA_LLM = ''llama3:8b'',
       GROQ_LLM = ''llama3-8b-8192'',
       OPENAI_LLM = ''gpt-4o'',
       OPENAI_API_KEY = env ''OPENAI_API_KEY'',
       GROQ_API_KEY = env ''GROQ_API_KEY'',
       DEEPGRAM_API_KEY = env ''DEEPGRAM_API_KEY'',
       ELEVENLABS_API_KEY = env ''ELEVENLABS_API_KEY'',
       LOCAL_MODEL_PATH = env ''LOCAL_MODEL_PATH'',
       CARTESIA_API_KEY = env ''CARTESIA_API_KEY'',
       TTS_PORT_LOCAL = 5150,
       INPUT_AUDIO = ''test.mp3'' \<rparr>"

text \<open>An optional string as a Python value.\<close>

fun py_opt :: "string option \<Rightarrow> pyval" where
  "py_opt None = PyNone"
| "py_opt (Some s) = PyStr s"

text \<open>
  \<^verbatim>\<open>getattr(Config, name)\<close>: the value of the attribute of that name, or
  \<^verbatim>\<open>AttributeError\<close> when the class has none.
\<close>

definition getattr_Config :: "Config \<Rightarrow> string \<Rightarrow> error + pyval" where
  "getattr_Config c name =
     (if name = ''TRANSCRIPTION_MODEL'' then Inr (PyStr (TRANSCRIPTION_MODEL c))
      else if name = ''RESPONSE_MODEL'' then Inr (PyStr (RESPONSE_MODEL c))
      else if name = ''TTS_MODEL'' then Inr (PyStr (TTS_MODEL c))
      else if name = ''PIPER_SERVER_URL'' then Inr (py_opt (PIPER_SERVER_URL c))
      else if name = ''PIPER_OUTPUT_FILE'' then Inr (PyStr (PIPER_OUTPUT_FILE c))
      else if name = ''OLLAMA_LLM'' then Inr (PyStr (OLLAMA_LLM c))
      else if name = ''GROQ_LLM'' then Inr (PyStr (GROQ_LLM c))
      else if name = ''OPENAI_LLM'' then Inr (PyStr (OPENAI_LLM c))
      else if name = ''OPENAI_API_KEY'' then Inr (py_opt (OPENAI_API_KEY c))
      else if name = ''GROQ_API_KEY'' then Inr (py_opt (GROQ_API_KEY c))
      else if name = ''DEEPGRAM_API_KEY'' then Inr (py_opt (DEEPGRAM_API_KEY c))
      else if name = ''ELEVENLABS_API_KEY'' then Inr (py_opt (ELEVENLABS_API_KEY c))
      else if name = ''LOCAL_MODEL_PATH'' then Inr (py_opt (LOCAL_MODEL_PATH c))
      else if name = ''CARTESIA_API_KEY'' then Inr (py_opt (CARTESIA_API_KEY c))
      else if name = ''TTS_PORT_LOCAL'' then Inr (PyInt (TTS_PORT_LOCAL c))
      else if name = ''INPUT_AUDIO'' then Inr (PyStr (INPUT_AUDIO c))
      else Inl (AttributeError name))"

subsection \<open>Validation\<close>

text \<open>
  The static methods read the class attributes, which are global state. A statement takes
  the registry and returns its outcome (\<open>Inl\<close> the exception raised, \<open>Inr ()\<close> for a
  normal return) together with the registry it leaves behind.
\<close>

type_synonym stmt = "Config \<Rightarrow> (error + unit) \<times> Config"

text \<open>
  \<^verbatim>\<open>_validate_model(attribute, valid_options)\<close> (lines 81 to 87). \<^verbatim>\<open>in\<close> on a list
  compares with \<^verbatim>\<open>==\<close>.
\<close>

definition validate_model :: "string \<Rightarrow> string list \<Rightarrow> stmt" where
  "validate_model attribute valid_options c =
     (case getattr_Config c attribute of
        Inl e \<Rightarrow> (Inl e, c)
      | Inr model \<Rightarrow>
          if model \<notin> set (map PyStr valid_options)
          then (Inl (ValueError (''Invalid '' @ attribute @ ''. Must be one of ''
                                  @ str_list valid_options)), c)
          else (Inr (), c))"

text \<open>
  \<^verbatim>\<open>_validate_api_key(model_attr, model_value, api_key_attr)\<close> (lines 89 to 92).
  \<^verbatim>\<open>and\<close> reads the credential only when the selection is \<^verbatim>\<open>model_value\<close>.
\<close>

definition validate_api_key :: "string \<Rightarrow> string \<Rightarrow> string \<Rightarrow> stmt" where
  "validate_api_key model_attr model_value api_key_attr c =
     (case getattr_Config c model_attr of
        Inl e \<Rightarrow> (Inl e, c)
      | Inr m \<Rightarrow>
          if m = PyStr model_value
          then (case getattr_Config c api_key_attr of
                  Inl e \<Rightarrow> (Inl e, c)
                | Inr k \<Rightarrow>
                    if \<not> truthy k
                    then (Inl (ValueError (api_key_attr @ '' is required for ''
                                            @ model_value @ '' models'')), c)
                    else (Inr (), c))
          else (Inr (), c))"

text \<open>
  A block of statements runs them in order on the registry each leaves behind; an
  exception ends it.
\<close>

fun block :: "stmt list \<Rightarrow> stmt" where
  "block [] c = (Inr (), c)"
| "block (s # ss) c =
     (case s c of
        (Inl e, c') \<Rightarrow> (Inl e, c')
      | (Inr u, c') \<Rightarrow> block ss c')"

text \<open>\<^verbatim>\<open>validate_config()\<close> (lines 54 to 79): twelve calls, one after the other.\<close>

definition validate_config :: stmt where
  "validate_config =
     block
       [validate_model ''TRANSCRIPTION_MODEL''
          [''openai'', ''groq'', ''deepgram'', ''fastwhisperapi'', ''local''],
        validate_model ''RESPONSE_MODEL''
          [''openai'', ''groq'', ''ollama'', ''local''],
        validate_model ''TTS_MODEL''
          [''openai'', ''deepgram'', ''elevenlabs'', ''melotts'', ''cartesia'', ''local'',
           ''piper''],

        validate_api_key ''TRANSCRIPTION_MODEL'' ''openai'' ''OPENAI_API_KEY'',
        validate_api_key ''TRANSCRIPTION_MODEL'' ''groq'' ''GROQ_API_KEY'',
        validate_api_key ''TRANSCRIPTION_MODEL'' ''deepgram'' ''DEEPGRAM_API_KEY'',

        validate_api_key ''RESPONSE_MODEL'' ''openai'' ''OPENAI_API_KEY'',
        validate_api_key ''RESPONSE_MODEL'' ''groq'' ''GROQ_API_KEY'',

        validate_api_key ''TTS_MODEL'' ''openai'' ''OPENAI_API_KEY'',
        validate_api_key ''TTS_MODEL'' ''deepgram'' ''DEEPGRAM_API_KEY'',
        validate_api_key ''TTS_MODEL'' ''elevenlabs'' ''ELEVENLABS_API_KEY'',
        validate_api_key ''TTS_MODEL'' ''cartesia'' ''CARTESIA_API_KEY'']"

subsection \<open>The checks as the specification lists them\<close>

text \<open>
  The specification describes validation as two tables walked in order: the enumerated
  domain of each provider selection, then the rules naming the credential a provider
  value requires. The tables and the walk below follow the specification; the theorems
  compare them with \<open>validate_config\<close>.
\<close>

definition provider_domains :: "(string \<times> string list) list" where
  "provider_domains =
     [(''TRANSCRIPTION_MODEL'', [''openai'', ''groq'', ''deepgram'', ''fastwhisperapi'', ''local'']),
      (''RESPONSE_MODEL'', [''openai'', ''groq'', ''ollama'', ''local'']),
      (''TTS_MODEL'', [''openai'', ''deepgram'', ''elevenlabs'', ''melotts'', ''cartesia'', ''local'', ''piper''])]"

definition credential_rules :: "(string \<times> string \<times> string) list" where
  "credential_rules =
     [(''TRANSCRIPTION_MODEL'', ''openai'', ''OPENAI_API_KEY''),
      (''TRANSCRIPTION_MODEL'', ''groq'', ''GROQ_API_KEY''),
      (''TRANSCRIPTION_MODEL'', ''deepgram'', ''DEEPGRAM_API_KEY''),
      (''RESPONSE_MODEL'', ''openai'', ''OPENAI_API_KEY''),
      (''RESPONSE_MODEL'', ''groq'', ''GROQ_API_KEY''),
      (''TTS_MODEL'', ''openai'', ''OPENAI_API_KEY''),
      (''TTS_MODEL'', ''deepgram'', ''DEEPGRAM_API_KEY''),
      (''TTS_MODEL'', ''elevenlabs'', ''ELEVENLABS_API_KEY''),
      (''TTS_MODEL'', ''cartesia'', ''CARTESIA_API_KEY'')]"

definition selects :: "Config \<Rightarrow> string \<Rightarrow> string \<Rightarrow> bool" where
  "selects c field v = (getattr_Config c field = Inr (PyStr v))"

definition present :: "Config \<Rightarrow> string \<Rightarrow> bool" where
  "present c k = (case getattr_Config c k of Inl e \<Rightarrow> False | Inr v \<Rightarrow> truthy v)"

definition in_domain :: "Config \<Rightarrow> string \<times> string list \<Rightarrow> bool" where
  "in_domain c d = list_ex (selects c (fst d)) (snd d)"

definition violated :: "Config \<Rightarrow> string \<times> string \<times> string \<Rightarrow> bool" where
  "violated c r = (case r of (field, v, k) \<Rightarrow> selects c field v \<and> \<not> present c k)"

definition invalid_selection :: "string \<times> string list \<Rightarrow> error" where
  "invalid_selection d =
     ValueError (''Invalid '' @ fst d @ ''. Must be one of '' @ str_list (snd d))"

definition missing_credential :: "string \<times> string \<times> string \<Rightarrow> error" where
  "missing_credential r =
     (case r of (field, v, k) \<Rightarrow> ValueError (k @ '' is required for '' @ v @ '' models''))"

definition spec_checks :: "Config \<Rightarrow> error option list" where
  "spec_checks c =
     map (\<lambda>d. if in_domain c d then None else Some (invalid_selection d)) provider_domains
     @ map (\<lambda>r. if violated c r then Some (missing_credential r) else None) credential_rules"

fun first_error :: "error option list \<Rightarrow> error + unit" where
  "first_error [] = Inr ()"
| "first_error (None # xs) = first_error xs"
| "first_error (Some e # xs) = Inl e"

definition spec_validate :: "Config \<Rightarrow> error + unit" where
  "spec_validate c = first_error (spec_checks c)"

text \<open>Sample environments: no variable set, and the two keys of the default selections.\<close>

definition unset_env :: "string \<rightharpoonup> string" where
  "unset_env = Map.empty"

definition default_env :: "string \<rightharpoonup> string" where
  "default_env = [''DEEPGRAM_API_KEY'' \<mapsto> ''dg-key'', ''OPENAI_API_KEY'' \<mapsto> ''sk-key'']"

section \<open>Auxiliary facts\<close>

lemma getattr_selection:
  "getattr_Config c ''TRANSCRIPTION_MODEL'' = Inr (PyStr (TRANSCRIPTION_MODEL c))"
  "getattr_Config c ''RESPONSE_MODEL'' = Inr (PyStr (RESPONSE_MODEL c))"
  "getattr_Config c ''TTS_MODEL'' = Inr (PyStr (TTS_MODEL c))"
  by (simp_all add: getattr_Config_def)

lemma getattr_credential:
  "getattr_Config c ''OPENAI_API_KEY'' = Inr (py_opt (OPENAI_API_KEY c))"
  "getattr_Config c ''GROQ_API_KEY'' = Inr (py_opt (GROQ_API_KEY c))"
  "getattr_Config c ''DEEPGRAM_API_KEY'' = Inr (py_opt (DEEPGRAM_API_KEY c))"
  "getattr_Config c ''ELEVENLABS_API_KEY'' = Inr (py_opt (ELEVENLABS_API_KEY c))"
  "getattr_Config c ''CARTESIA_API_KEY'' = Inr (py_opt (CARTESIA_API_KEY c))"
  by (simp_all add: getattr_Config_def)

lemma str_list_domains:
  "str_list [''openai'', ''groq'', ''deepgram'', ''fastwhisperapi'', ''local'']
     = ''['openai', 'groq', 'deepgram', 'fastwhisperapi', 'local']''"
  "str_list [''openai'', ''groq'', ''ollama'', ''local'']
     = ''['openai', 'groq', 'ollama', 'local']''"
  "str_list [''openai'', ''deepgram'', ''elevenlabs'', ''melotts'', ''cartesia'', ''local'', ''piper'']
     = ''['openai', 'deepgram', 'elevenlabs', 'melotts', 'cartesia', 'local', 'piper']''"
  by code_simp+

lemma block_state:
  "(\<And>s c. s \<in> set ss \<Longrightarrow> snd (s c) = c) \<Longrightarrow> snd (block ss c) = c"
proof (induction ss arbitrary: c)
  case Nil
  then show ?case by simp
next
  case (Cons s ss)
  have "snd (s c) = c" using Cons.prems by simp
  then obtain r where r: "s c = (r, c)" by (cases "s c") simp
  have "snd (block ss c) = c" using Cons by simp
  with r show ?case by (cases r) simp_all
qed

lemma validate_model_state: "snd (validate_model a opts c) = c"
  by (simp add: validate_model_def split: sum.splits)

lemma validate_api_key_state: "snd (validate_api_key a v k c) = c"
  by (simp add: validate_api_key_def split: sum.splits)

lemma validate_config_state: "snd (validate_config c) = c"
  unfolding validate_config_def
  by (rule block_state) (auto simp: validate_model_state validate_api_key_state)

lemma validate_model_selects:
  "fst (validate_model a opts c) =
     (case getattr_Config c a of Inl e \<Rightarrow> Inl e
      | Inr m \<Rightarrow> if in_domain c (a, opts) then Inr () else Inl (invalid_selection (a, opts)))"
  by (auto simp: validate_model_def in_domain_def selects_def invalid_selection_def list_ex_iff
      split: sum.splits)

lemma validate_api_key_violated:
  "fst (validate_api_key a v k c) =
     (case getattr_Config c a of Inl e \<Rightarrow> Inl e
      | Inr m \<Rightarrow> if m = PyStr v then
           (case getattr_Config c k of Inl e \<Rightarrow> Inl e
            | Inr x \<Rightarrow> if violated c (a, v, k) then Inl (missing_credential (a, v, k)) else Inr ())
         else Inr ())"
  by (auto simp: validate_api_key_def violated_def selects_def present_def missing_credential_def
      split: sum.splits)

lemma block_Cons_fst:
  "fst (block (s # ss) c) = (case fst (s c) of Inl e \<Rightarrow> Inl e | Inr u \<Rightarrow> fst (block ss (snd (s c))))"
  by (cases "s c") (simp split: sum.splits)

lemma validate_config_spec: "fst (validate_config c) = spec_validate c"
  unfolding validate_config_def spec_validate_def spec_checks_def provider_domains_def credential_rules_def
  apply (simp only: block_Cons_fst validate_model_state validate_api_key_state)
  apply (simp add: validate_model_selects validate_api_key_violated getattr_selection getattr_credential violated_def selects_def)
  done

lemma truthy_py_opt: "truthy (py_opt k) \<longleftrightarrow> (\<exists>s. k = Some s \<and> s \<noteq> [])"
  by (cases k) simp_all

lemma first_error_skip: "\<forall>x\<in>set xs. x = None \<Longrightarrow> first_error (xs @ ys) = first_error ys"
  by (induction xs) simp_all

lemma in_domain_selection:
  "in_domain c (''TRANSCRIPTION_MODEL'', opts) = (TRANSCRIPTION_MODEL c \<in> set opts)"
  "in_domain c (''RESPONSE_MODEL'', opts) = (RESPONSE_MODEL c \<in> set opts)"
  "in_domain c (''TTS_MODEL'', opts) = (TTS_MODEL c \<in> set opts)"
  by (auto simp: in_domain_def selects_def getattr_selection list_ex_iff)

lemma selects_selection:
  "selects c ''TRANSCRIPTION_MODEL'' v = (TRANSCRIPTION_MODEL c = v)"
  "selects c ''RESPONSE_MODEL'' v = (RESPONSE_MODEL c = v)"
  "selects c ''TTS_MODEL'' v = (TTS_MODEL c = v)"
  by (auto simp: selects_def getattr_selection)

lemma present_credential:
  "present c ''OPENAI_API_KEY'' = truthy (py_opt (OPENAI_API_KEY c))"
  "present c ''GROQ_API_KEY'' = truthy (py_opt (GROQ_API_KEY c))"
  "present c ''DEEPGRAM_API_KEY'' = truthy (py_opt (DEEPGRAM_API_KEY c))"
  "present c ''ELEVENLABS_API_KEY'' = truthy (py_opt (ELEVENLABS_API_KEY c))"
  "present c ''CARTESIA_API_KEY'' = truthy (py_opt (CARTESIA_API_KEY c))"
  by (simp_all add: present_def getattr_credential)

lemma validate_config_cases:
  "fst (validate_config c) =
     (if TRANSCRIPTION_MODEL c \<notin> set [''openai'', ''groq'', ''deepgram'', ''fastwhisperapi'', ''local'']
      then Inl (ValueError ''Invalid TRANSCRIPTION_MODEL. Must be one of ['openai', 'groq', 'deepgram', 'fastwhisperapi', 'local']'')
      else if RESPONSE_MODEL c \<notin> set [''openai'', ''groq'', ''ollama'', ''local'']
      then Inl (ValueError ''Invalid RESPONSE_MODEL. Must be one of ['openai', 'groq', 'ollama', 'local']'')
      else if TTS_MODEL c \<notin> set [''openai'', ''deepgram'', ''elevenlabs'', ''melotts'', ''cartesia'', ''local'', ''piper'']
      then Inl (ValueError ''Invalid TTS_MODEL. Must be one of ['openai', 'deepgram', 'elevenlabs', 'melotts', 'cartesia', 'local', 'piper']'')
      else if TRANSCRIPTION_MODEL c = ''openai'' \<and> \<not> truthy (py_opt (OPENAI_API_KEY c))
      then Inl (ValueError ''OPENAI_API_KEY is required for openai models'')
      else if TRANSCRIPTION_MODEL c = ''groq'' \<and> \<not> truthy (py_opt (GROQ_API_KEY c))
      then Inl (ValueError ''GROQ_API_KEY is required for groq models'')
      else if TRANSCRIPTION_MODEL c = ''deepgram'' \<and> \<not> truthy (py_opt (DEEPGRAM_API_KEY c))
      then Inl (ValueError ''DEEPGRAM_API_KEY is required for deepgram models'')
      else if RESPONSE_MODEL c = ''openai'' \<and> \<not> truthy (py_opt (OPENAI_API_KEY c))
      then Inl (ValueError ''OPENAI_API_KEY is required for openai models'')
      else if RESPONSE_MODEL c = ''groq'' \<and> \<not> truthy (py_opt (GROQ_API_KEY c))
      then Inl (ValueError ''GROQ_API_KEY is required for groq models'')
      else if TTS_MODEL c = ''openai'' \<and> \<not> truthy (py_opt (OPENAI_API_KEY c))
      then Inl (ValueError ''OPENAI_API_KEY is required for openai models'')
      else if TTS_MODEL c = ''deepgram'' \<and> \<not> truthy (py_opt (DEEPGRAM_API_KEY c))
      then Inl (ValueError ''DEEPGRAM_API_KEY is required for deepgram models'')
      else if TTS_MODEL c = ''elevenlabs'' \<and> \<not> truthy (py_opt (ELEVENLABS_API_KEY c))
      then Inl (ValueError ''ELEVENLABS_API_KEY is required for elevenlabs models'')
      else if TTS_MODEL c = ''cartesia'' \<and> \<not> truthy (py_opt (CARTESIA_API_KEY c))
      then Inl (ValueError ''CARTESIA_API_KEY is required for cartesia models'')
      else Inr ())"
  unfolding validate_config_spec spec_validate_def spec_checks_def provider_domains_def
    credential_rules_def
  by (simp only: list.map append.simps first_error.simps in_domain_selection violated_def
        selects_selection present_credential invalid_selection_def missing_credential_def
        str_list_domains fst_conv snd_conv prod.case if_distrib[of first_error] if_distrib[of "\<lambda>x. first_error (x # _)"])
     simp

section \<open>The claims\<close>

text \<open>
  C1. When each provider selection is in its enumerated domain and every rule of the
  table whose field and provider value match the selection names a credential that is
  present and not empty, \<open>validate_config\<close> returns without raising.
\<close>

theorem validate_config_accepts:
  assumes "\<forall>d\<in>set provider_domains. in_domain c d"
    and "\<forall>(field, v, k)\<in>set credential_rules. selects c field v \<longrightarrow> present c k"
  shows "fst (validate_config c) = Inr ()"
proof -
  have "\<forall>x\<in>set (spec_checks c). x = None"
    using assms by (auto simp: spec_checks_def violated_def)
  then have "first_error (spec_checks c @ []) = first_error []"
    by (rule first_error_skip)
  then show ?thesis
    by (simp add: validate_config_spec spec_validate_def)
qed

text \<open>The default selections with both of their keys set.\<close>

theorem validate_config_accepts_witness:
  "fst (validate_config (load_Config default_env)) = Inr ()"
proof -
  have d: "\<forall>d\<in>set provider_domains. in_domain (load_Config default_env) d"
    by (simp add: provider_domains_def in_domain_selection load_Config_def)
  have r: "\<forall>(field, v, k)\<in>set credential_rules.
             selects (load_Config default_env) field v \<longrightarrow> present (load_Config default_env) k"
    by (simp add: credential_rules_def selects_selection present_credential load_Config_def
        default_env_def)
  show ?thesis
    by (rule validate_config_accepts [OF d r])
qed

text \<open>
  C2. When the selections are in their domains, a rule of the table is violated (its
  field holds its provider value and its credential is absent or empty) and no rule before
  it is, \<open>validate_config\<close> raises the error naming that rule's credential and provider
  value. In particular the transcription selection \<^verbatim>\<open>openai\<close> without
  \<^verbatim>\<open>OPENAI_API_KEY\<close> raises \<^verbatim>\<open>OPENAI_API_KEY is required for openai models\<close>.
\<close>

theorem missing_credential_reported:
  "(credential_rules = pre @ r # post \<and> (\<forall>d\<in>set provider_domains. in_domain c d)
      \<and> (\<forall>p\<in>set pre. \<not> violated c p) \<and> violated c r
      \<longrightarrow> fst (validate_config c) = Inl (missing_credential r))
   \<and> (TRANSCRIPTION_MODEL c = ''openai'' \<and> \<not> truthy (py_opt (OPENAI_API_KEY c))
      \<and> RESPONSE_MODEL c \<in> set [''openai'', ''groq'', ''ollama'', ''local'']
      \<and> TTS_MODEL c \<in> set [''openai'', ''deepgram'', ''elevenlabs'', ''melotts'', ''cartesia'',
                               ''local'', ''piper'']
      \<longrightarrow> fst (validate_config c) = Inl (ValueError ''OPENAI_API_KEY is required for openai models''))"
proof (intro conjI impI)
  assume a: "credential_rules = pre @ r # post \<and> (\<forall>d\<in>set provider_domains. in_domain c d)
      \<and> (\<forall>p\<in>set pre. \<not> violated c p) \<and> violated c r"
  let ?dom = "map (\<lambda>d. if in_domain c d then None else Some (invalid_selection d)) provider_domains"
  let ?chk = "\<lambda>r. if violated c r then Some (missing_credential r) else None"
  from a have eq: "credential_rules = pre @ r # post"
    by simp
  have split: "spec_checks c = (?dom @ map ?chk pre) @ (?chk r # map ?chk post)"
    unfolding spec_checks_def eq by simp
  have "\<forall>x\<in>set (?dom @ map ?chk pre). x = None"
    using a by auto
  then have "first_error (spec_checks c) = first_error (?chk r # map ?chk post)"
    unfolding split by (rule first_error_skip)
  then show "fst (validate_config c) = Inl (missing_credential r)"
    using a by (simp add: validate_config_spec spec_validate_def)
next
  assume "TRANSCRIPTION_MODEL c = ''openai'' \<and> \<not> truthy (py_opt (OPENAI_API_KEY c))
      \<and> RESPONSE_MODEL c \<in> set [''openai'', ''groq'', ''ollama'', ''local'']
      \<and> TTS_MODEL c \<in> set [''openai'', ''deepgram'', ''elevenlabs'', ''melotts'', ''cartesia'',
                               ''local'', ''piper'']"
  then show "fst (validate_config c) = Inl (ValueError ''OPENAI_API_KEY is required for openai models'')"
    unfolding validate_config_cases by simp
qed

text \<open>
  The last rule of the table with the eight before it satisfied, and the first rule with
  no variable set.
\<close>

theorem missing_credential_reported_witness:
  "fst (validate_config ((load_Config default_env)\<lparr>TTS_MODEL := ''cartesia''\<rparr>))
     = Inl (ValueError ''CARTESIA_API_KEY is required for cartesia models'')
   \<and> fst (validate_config ((load_Config unset_env)\<lparr>TRANSCRIPTION_MODEL := ''openai''\<rparr>))
     = Inl (ValueError ''OPENAI_API_KEY is required for openai models'')"
proof -
  let ?c = "(load_Config default_env)\<lparr>TTS_MODEL := ''cartesia''\<rparr>"
  let ?pre = "[(''TRANSCRIPTION_MODEL'', ''openai'', ''OPENAI_API_KEY''),
      (''TRANSCRIPTION_MODEL'', ''groq'', ''GROQ_API_KEY''),
      (''TRANSCRIPTION_MODEL'', ''deepgram'', ''DEEPGRAM_API_KEY''),
      (''RESPONSE_MODEL'', ''openai'', ''OPENAI_API_KEY''),
      (''RESPONSE_MODEL'', ''groq'', ''GROQ_API_KEY''),
      (''TTS_MODEL'', ''openai'', ''OPENAI_API_KEY''),
      (''TTS_MODEL'', ''deepgram'', ''DEEPGRAM_API_KEY''),
      (''TTS_MODEL'', ''elevenlabs'', ''ELEVENLABS_API_KEY'')]"
  let ?r = "(''TTS_MODEL'', ''cartesia'', ''CARTESIA_API_KEY'')"
  have h: "credential_rules = ?pre @ ?r # [] \<and> (\<forall>d\<in>set provider_domains. in_domain ?c d)
      \<and> (\<forall>p\<in>set ?pre. \<not> violated ?c p) \<and> violated ?c ?r"
    by (simp add: credential_rules_def provider_domains_def in_domain_selection violated_def
        selects_selection present_credential load_Config_def default_env_def)
  let ?u = "(load_Config unset_env)\<lparr>TRANSCRIPTION_MODEL := ''openai''\<rparr>"
  have g: "TRANSCRIPTION_MODEL ?u = ''openai'' \<and> \<not> truthy (py_opt (OPENAI_API_KEY ?u))
      \<and> RESPONSE_MODEL ?u \<in> set [''openai'', ''groq'', ''ollama'', ''local'']
      \<and> TTS_MODEL ?u \<in> set [''openai'', ''deepgram'', ''elevenlabs'', ''melotts'', ''cartesia'',
                               ''local'', ''piper'']"
    by (simp add: load_Config_def unset_env_def)
  from missing_credential_reported [of ?pre ?r "[]" ?c] h
  have "fst (validate_config ?c) = Inl (missing_credential ?r)"
    by blast
  moreover from missing_credential_reported [of "[]" ?r "[]" ?u] g
  have "fst (validate_config ?u) = Inl (ValueError ''OPENAI_API_KEY is required for openai models'')"
    by blast
  ultimately show ?thesis
    by (simp add: missing_credential_def)
qed

text \<open>
  C3, as stated, has the error identify the offending value. Two registries with different
  values outside the transcription domain raise the same error, whose message holds the
  field name and the allowed list only.
\<close>

theorem invalid_selection_value_counterexample:
  "TRANSCRIPTION_MODEL ((load_Config default_env)\<lparr>TRANSCRIPTION_MODEL := ''whisper''\<rparr>)
     \<noteq> TRANSCRIPTION_MODEL ((load_Config default_env)\<lparr>TRANSCRIPTION_MODEL := ''azure''\<rparr>)
   \<and> fst (validate_config ((load_Config default_env)\<lparr>TRANSCRIPTION_MODEL := ''whisper''\<rparr>))
     = Inl (ValueError ''Invalid TRANSCRIPTION_MODEL. Must be one of ['openai', 'groq', 'deepgram', 'fastwhisperapi', 'local']'')
   \<and> fst (validate_config ((load_Config default_env)\<lparr>TRANSCRIPTION_MODEL := ''azure''\<rparr>))
     = Inl (ValueError ''Invalid TRANSCRIPTION_MODEL. Must be one of ['openai', 'groq', 'deepgram', 'fastwhisperapi', 'local']'')"
  by (simp add: validate_config_cases load_Config_def)

text \<open>
  C3, amended. When a provider selection is outside its enumerated domain,
  \<open>validate_config\<close> raises a \<^verbatim>\<open>ValueError\<close> whose message names the first such field
  (transcription, then response, then text-to-speech) and the list of values allowed for
  it; the message is the same for every offending value.
\<close>

theorem invalid_selection_reported:
  "(TRANSCRIPTION_MODEL c \<notin> set [''openai'', ''groq'', ''deepgram'', ''fastwhisperapi'', ''local'']
      \<longrightarrow> fst (validate_config c) = Inl (ValueError
            ''Invalid TRANSCRIPTION_MODEL. Must be one of ['openai', 'groq', 'deepgram', 'fastwhisperapi', 'local']''))
   \<and> (TRANSCRIPTION_MODEL c \<in> set [''openai'', ''groq'', ''deepgram'', ''fastwhisperapi'', ''local'']
      \<and> RESPONSE_MODEL c \<notin> set [''openai'', ''groq'', ''ollama'', ''local'']
      \<longrightarrow> fst (validate_config c) = Inl (ValueError
            ''Invalid RESPONSE_MODEL. Must be one of ['openai', 'groq', 'ollama', 'local']''))
   \<and> (TRANSCRIPTION_MODEL c \<in> set [''openai'', ''groq'', ''deepgram'', ''fastwhisperapi'', ''local'']
      \<and> RESPONSE_MODEL c \<in> set [''openai'', ''groq'', ''ollama'', ''local'']
      \<and> TTS_MODEL c \<notin> set [''openai'', ''deepgram'', ''elevenlabs'', ''melotts'', ''cartesia'',
                               ''local'', ''piper'']
      \<longrightarrow> fst (validate_config c) = Inl (ValueError
            ''Invalid TTS_MODEL. Must be one of ['openai', 'deepgram', 'elevenlabs', 'melotts', 'cartesia', 'local', 'piper']''))"
  unfolding validate_config_cases by simp

text \<open>One registry for each of the three fields.\<close>

theorem invalid_selection_reported_witness:
  "fst (validate_config ((load_Config default_env)\<lparr>TRANSCRIPTION_MODEL := ''whisper''\<rparr>))
     = Inl (ValueError ''Invalid TRANSCRIPTION_MODEL. Must be one of ['openai', 'groq', 'deepgram', 'fastwhisperapi', 'local']'')
   \<and> fst (validate_config ((load_Config default_env)\<lparr>RESPONSE_MODEL := ''gemini''\<rparr>))
     = Inl (ValueError ''Invalid RESPONSE_MODEL. Must be one of ['openai', 'groq', 'ollama', 'local']'')
   \<and> fst (validate_config ((load_Config default_env)\<lparr>TTS_MODEL := ''festival''\<rparr>))
     = Inl (ValueError ''Invalid TTS_MODEL. Must be one of ['openai', 'deepgram', 'elevenlabs', 'melotts', 'cartesia', 'local', 'piper']'')"
  using invalid_selection_reported [of "(load_Config default_env)\<lparr>TRANSCRIPTION_MODEL := ''whisper''\<rparr>"]
    invalid_selection_reported [of "(load_Config default_env)\<lparr>RESPONSE_MODEL := ''gemini''\<rparr>"]
    invalid_selection_reported [of "(load_Config default_env)\<lparr>TTS_MODEL := ''festival''\<rparr>"]
  by (simp add: load_Config_def)

text \<open>
  C4. The outcome of \<open>validate_config\<close> is the first error of the twelve checks taken in
  the order of the specification: the three domain checks (transcription, response,
  text-to-speech), then the nine credential rules in table order; nothing is aggregated.
  Hence, whatever the credentials are, a registry with a selection outside its domain
  raises the error of the first such field.
\<close>

theorem validate_config_order:
  "fst (validate_config c) = spec_validate c
   \<and> (provider_domains = pre @ d # post \<and> (\<forall>p\<in>set pre. in_domain c p) \<and> \<not> in_domain c d
      \<longrightarrow> fst (validate_config c) = Inl (invalid_selection d))"
proof (intro conjI impI)
  show "fst (validate_config c) = spec_validate c"
    by (rule validate_config_spec)
next
  assume a: "provider_domains = pre @ d # post \<and> (\<forall>p\<in>set pre. in_domain c p) \<and> \<not> in_domain c d"
  let ?dom = "\<lambda>d. if in_domain c d then None else Some (invalid_selection d)"
  let ?cred = "map (\<lambda>r. if violated c r then Some (missing_credential r) else None) credential_rules"
  from a have eq: "provider_domains = pre @ d # post"
    by simp
  have split: "spec_checks c = map ?dom pre @ (?dom d # map ?dom post @ ?cred)"
    unfolding spec_checks_def eq by simp
  have "\<forall>x\<in>set (map ?dom pre). x = None"
    using a by auto
  then have "first_error (spec_checks c) = first_error (?dom d # map ?dom post @ ?cred)"
    unfolding split by (rule first_error_skip)
  then show "fst (validate_config c) = Inl (invalid_selection d)"
    using a by (simp add: validate_config_spec spec_validate_def)
qed

text \<open>
  A registry with a text-to-speech selection outside its domain and a violated credential
  rule: the domain error is the one raised.
\<close>

theorem validate_config_order_witness:
  "violated ((load_Config unset_env)\<lparr>TTS_MODEL := ''festival''\<rparr>)
     (''TRANSCRIPTION_MODEL'', ''deepgram'', ''DEEPGRAM_API_KEY'')
   \<and> fst (validate_config ((load_Config unset_env)\<lparr>TTS_MODEL := ''festival''\<rparr>))
     = Inl (ValueError ''Invalid TTS_MODEL. Must be one of ['openai', 'deepgram', 'elevenlabs', 'melotts', 'cartesia', 'local', 'piper']'')"
proof -
  let ?c = "(load_Config unset_env)\<lparr>TTS_MODEL := ''festival''\<rparr>"
  let ?pre = "[(''TRANSCRIPTION_MODEL'', [''openai'', ''groq'', ''deepgram'', ''fastwhisperapi'', ''local'']),
      (''RESPONSE_MODEL'', [''openai'', ''groq'', ''ollama'', ''local''])]"
  let ?d = "(''TTS_MODEL'', [''openai'', ''deepgram'', ''elevenlabs'', ''melotts'', ''cartesia'', ''local'', ''piper''])"
  have h: "provider_domains = ?pre @ ?d # [] \<and> (\<forall>p\<in>set ?pre. in_domain ?c p) \<and> \<not> in_domain ?c ?d"
    by (simp add: provider_domains_def in_domain_selection load_Config_def)
  have v: "violated ?c (''TRANSCRIPTION_MODEL'', ''deepgram'', ''DEEPGRAM_API_KEY'')"
    by (simp add: violated_def selects_selection present_credential load_Config_def unset_env_def)
  from validate_config_order [of ?c ?pre ?d "[]"] h
  have "fst (validate_config ?c) = Inl (invalid_selection ?d)"
    by blast
  with v show ?thesis
    by (simp add: invalid_selection_def str_list_domains)
qed

text \<open>
  C5. With the selections \<^verbatim>\<open>deepgram\<close>, \<^verbatim>\<open>openai\<close>, \<^verbatim>\<open>elevenlabs\<close>, the Deepgram and
  OpenAI keys present and not empty and the ElevenLabs key absent, \<open>validate_config\<close>
  raises \<^verbatim>\<open>ELEVENLABS_API_KEY is required for elevenlabs models\<close>.
\<close>

theorem elevenlabs_scenario:
  assumes "TRANSCRIPTION_MODEL c = ''deepgram''" and "RESPONSE_MODEL c = ''openai''"
    and "TTS_MODEL c = ''elevenlabs''"
    and "truthy (py_opt (DEEPGRAM_API_KEY c))" and "truthy (py_opt (OPENAI_API_KEY c))"
    and "ELEVENLABS_API_KEY c = None"
  shows "fst (validate_config c)
           = Inl (ValueError ''ELEVENLABS_API_KEY is required for elevenlabs models'')"
  unfolding validate_config_cases using assms by simp

text \<open>The scenario on the loaded registry.\<close>

theorem elevenlabs_scenario_witness:
  "fst (validate_config ((load_Config default_env)\<lparr>TTS_MODEL := ''elevenlabs''\<rparr>))
     = Inl (ValueError ''ELEVENLABS_API_KEY is required for elevenlabs models'')"
  by (rule elevenlabs_scenario) (simp_all add: load_Config_def default_env_def)

text \<open>
  C6. When the three selections are in their domains and none of them is a provider value
  of the rule table, \<open>validate_config\<close> succeeds whatever the credentials are, also with
  every credential absent.
\<close>

theorem no_rule_no_credential:
  assumes "\<forall>d\<in>set provider_domains. in_domain c d"
    and "\<forall>(field, v, k)\<in>set credential_rules. \<not> selects c field v"
  shows "fst (validate_config c) = Inr ()
         \<and> fst (validate_config (c\<lparr>OPENAI_API_KEY := None, GROQ_API_KEY := None,
              DEEPGRAM_API_KEY := None, ELEVENLABS_API_KEY := None,
              CARTESIA_API_KEY := None\<rparr>)) = Inr ()"
  using assms unfolding validate_config_cases
  by (simp add: provider_domains_def credential_rules_def in_domain_selection selects_selection)

text \<open>
  The text-to-speech selections \<^verbatim>\<open>local\<close>, \<^verbatim>\<open>melotts\<close> and \<^verbatim>\<open>piper\<close> with no variable
  set.
\<close>

theorem no_rule_no_credential_witness:
  "fst (validate_config ((load_Config unset_env)\<lparr>TRANSCRIPTION_MODEL := ''local'',
      RESPONSE_MODEL := ''local'', TTS_MODEL := ''local''\<rparr>)) = Inr ()
   \<and> fst (validate_config ((load_Config unset_env)\<lparr>TRANSCRIPTION_MODEL := ''fastwhisperapi'',
      RESPONSE_MODEL := ''ollama'', TTS_MODEL := ''melotts''\<rparr>)) = Inr ()
   \<and> fst (validate_config ((load_Config unset_env)\<lparr>TRANSCRIPTION_MODEL := ''fastwhisperapi'',
      RESPONSE_MODEL := ''ollama'', TTS_MODEL := ''piper''\<rparr>)) = Inr ()"
proof -
  let ?a = "(load_Config unset_env)\<lparr>TRANSCRIPTION_MODEL := ''local'',
      RESPONSE_MODEL := ''local'', TTS_MODEL := ''local''\<rparr>"
  let ?b = "(load_Config unset_env)\<lparr>TRANSCRIPTION_MODEL := ''fastwhisperapi'',
      RESPONSE_MODEL := ''ollama'', TTS_MODEL := ''melotts''\<rparr>"
  let ?c = "(load_Config unset_env)\<lparr>TRANSCRIPTION_MODEL := ''fastwhisperapi'',
      RESPONSE_MODEL := ''ollama'', TTS_MODEL := ''piper''\<rparr>"
  have da: "\<forall>d\<in>set provider_domains. in_domain ?a d"
    and db: "\<forall>d\<in>set provider_domains. in_domain ?b d"
    and dc: "\<forall>d\<in>set provider_domains. in_domain ?c d"
    by (simp_all add: provider_domains_def in_domain_selection)
  have ra: "\<forall>(field, v, k)\<in>set credential_rules. \<not> selects ?a field v"
    and rb: "\<forall>(field, v, k)\<in>set credential_rules. \<not> selects ?b field v"
    and rc: "\<forall>(field, v, k)\<in>set credential_rules. \<not> selects ?c field v"
    by (simp_all add: credential_rules_def selects_selection)
  show ?thesis
    using no_rule_no_credential [OF da ra] no_rule_no_credential [OF db rb]
      no_rule_no_credential [OF dc rc]
    by blast
qed

text \<open>
  C7. A second call of \<open>validate_config\<close>, on the registry the first call leaves behind,
  has the outcome of the first.
\<close>

theorem validate_config_twice:
  "fst (validate_config (snd (validate_config c))) = fst (validate_config c)"
  by (simp add: validate_config_state)

text \<open>
  C8. Whatever its outcome, \<open>validate_config\<close> leaves the registry as it found it.
\<close>

theorem validate_config_no_effect: "validate_config c = (r, c') \<Longrightarrow> c' = c"
  using validate_config_state [of c] by simp

text \<open>A failing and a succeeding call.\<close>

theorem validate_config_no_effect_witness:
  "snd (validate_config (load_Config unset_env)) = load_Config unset_env
   \<and> snd (validate_config (load_Config default_env)) = load_Config default_env"
  using validate_config_no_effect [of "load_Config unset_env"
      "fst (validate_config (load_Config unset_env))" "snd (validate_config (load_Config unset_env))"]
    validate_config_no_effect [of "load_Config default_env"
      "fst (validate_config (load_Config default_env))" "snd (validate_config (load_Config default_env))"]
  by simp

text \<open>
  C9. With the default selections \<^verbatim>\<open>deepgram\<close>, \<^verbatim>\<open>openai\<close>, \<^verbatim>\<open>openai\<close>,
  \<open>validate_config\<close> succeeds exactly when the Deepgram and the OpenAI key are both
  present and not empty, and two such registries that agree on these two keys have the
  same outcome, whatever their other fields hold.
\<close>

theorem default_selections_outcome:
  assumes "TRANSCRIPTION_MODEL c = ''deepgram''" and "RESPONSE_MODEL c = ''openai''"
    and "TTS_MODEL c = ''openai''"
  shows "(fst (validate_config c) = Inr ()
            \<longleftrightarrow> truthy (py_opt (DEEPGRAM_API_KEY c)) \<and> truthy (py_opt (OPENAI_API_KEY c)))
         \<and> (TRANSCRIPTION_MODEL c' = ''deepgram'' \<and> RESPONSE_MODEL c' = ''openai''
              \<and> TTS_MODEL c' = ''openai'' \<and> DEEPGRAM_API_KEY c' = DEEPGRAM_API_KEY c
              \<and> OPENAI_API_KEY c' = OPENAI_API_KEY c
            \<longrightarrow> fst (validate_config c') = fst (validate_config c))"
proof (intro conjI impI)
  show "fst (validate_config c) = Inr ()
          \<longleftrightarrow> truthy (py_opt (DEEPGRAM_API_KEY c)) \<and> truthy (py_opt (OPENAI_API_KEY c))"
    unfolding validate_config_cases using assms by simp
next
  assume "TRANSCRIPTION_MODEL c' = ''deepgram'' \<and> RESPONSE_MODEL c' = ''openai''
              \<and> TTS_MODEL c' = ''openai'' \<and> DEEPGRAM_API_KEY c' = DEEPGRAM_API_KEY c
              \<and> OPENAI_API_KEY c' = OPENAI_API_KEY c"
  then show "fst (validate_config c') = fst (validate_config c)"
    unfolding validate_config_cases using assms by simp
qed

text \<open>
  The loaded registry with both keys, with the OpenAI key only, and with other fields
  changed.
\<close>

theorem default_selections_outcome_witness:
  "fst (validate_config (load_Config default_env)) = Inr ()
   \<and> fst (validate_config (load_Config [''OPENAI_API_KEY'' \<mapsto> ''sk-key''])) \<noteq> Inr ()
   \<and> fst (validate_config ((load_Config default_env)\<lparr>PIPER_SERVER_URL := Some ''http://piper'',
        GROQ_API_KEY := Some ''gsk'', TTS_PORT_LOCAL := 80\<rparr>))
      = fst (validate_config (load_Config default_env))"
proof -
  let ?c = "load_Config default_env"
  let ?c' = "(load_Config default_env)\<lparr>PIPER_SERVER_URL := Some ''http://piper'',
        GROQ_API_KEY := Some ''gsk'', TTS_PORT_LOCAL := 80\<rparr>"
  let ?d = "load_Config [''OPENAI_API_KEY'' \<mapsto> ''sk-key'']"
  have c: "TRANSCRIPTION_MODEL ?c = ''deepgram''" "RESPONSE_MODEL ?c = ''openai''"
    "TTS_MODEL ?c = ''openai''"
    by (simp_all add: load_Config_def)
  have d: "TRANSCRIPTION_MODEL ?d = ''deepgram''" "RESPONSE_MODEL ?d = ''openai''"
    "TTS_MODEL ?d = ''openai''"
    by (simp_all add: load_Config_def)
  have kc: "truthy (py_opt (DEEPGRAM_API_KEY ?c)) \<and> truthy (py_opt (OPENAI_API_KEY ?c))"
    by (simp add: load_Config_def default_env_def)
  have kd: "\<not> truthy (py_opt (DEEPGRAM_API_KEY ?d))"
    by (simp add: load_Config_def)
  have e: "TRANSCRIPTION_MODEL ?c' = ''deepgram'' \<and> RESPONSE_MODEL ?c' = ''openai''
              \<and> TTS_MODEL ?c' = ''openai'' \<and> DEEPGRAM_API_KEY ?c' = DEEPGRAM_API_KEY ?c
              \<and> OPENAI_API_KEY ?c' = OPENAI_API_KEY ?c"
    by (simp add: load_Config_def)
  from default_selections_outcome [OF c, of ?c'] kc e
  have 1: "fst (validate_config ?c) = Inr ()"
    and 3: "fst (validate_config ?c') = fst (validate_config ?c)"
    by blast+
  from default_selections_outcome [OF d, of ?d] kd
  have 2: "fst (validate_config ?d) \<noteq> Inr ()"
    by blast
  from 1 2 3 show ?thesis
    by blast
qed

text \<open>
  C10. \<open>validate_config\<close> reads the three selections and the five credentials of the rule
  table only: two registries that agree on these eight fields have the same outcome. In
  particular, with the text-to-speech selection \<^verbatim>\<open>piper\<close>, the other two selections in
  their domains and their required credentials present, validation succeeds whatever
  \<^verbatim>\<open>PIPER_SERVER_URL\<close> and \<^verbatim>\<open>LOCAL_MODEL_PATH\<close> hold, absent and empty included.
\<close>

theorem unexamined_fields:
  "(TRANSCRIPTION_MODEL c' = TRANSCRIPTION_MODEL c \<and> RESPONSE_MODEL c' = RESPONSE_MODEL c
      \<and> TTS_MODEL c' = TTS_MODEL c \<and> OPENAI_API_KEY c' = OPENAI_API_KEY c
      \<and> GROQ_API_KEY c' = GROQ_API_KEY c \<and> DEEPGRAM_API_KEY c' = DEEPGRAM_API_KEY c
      \<and> ELEVENLABS_API_KEY c' = ELEVENLABS_API_KEY c \<and> CARTESIA_API_KEY c' = CARTESIA_API_KEY c
      \<longrightarrow> fst (validate_config c') = fst (validate_config c))
   \<and> (TTS_MODEL c = ''piper''
      \<and> TRANSCRIPTION_MODEL c \<in> set [''openai'', ''groq'', ''deepgram'', ''fastwhisperapi'', ''local'']
      \<and> RESPONSE_MODEL c \<in> set [''openai'', ''groq'', ''ollama'', ''local'']
      \<and> (\<forall>(field, v, k)\<in>set credential_rules. selects c field v \<longrightarrow> present c k)
      \<longrightarrow> fst (validate_config (c\<lparr>PIPER_SERVER_URL := u, LOCAL_MODEL_PATH := p\<rparr>)) = Inr ())"
proof (intro conjI impI)
  assume "TRANSCRIPTION_MODEL c' = TRANSCRIPTION_MODEL c \<and> RESPONSE_MODEL c' = RESPONSE_MODEL c
      \<and> TTS_MODEL c' = TTS_MODEL c \<and> OPENAI_API_KEY c' = OPENAI_API_KEY c
      \<and> GROQ_API_KEY c' = GROQ_API_KEY c \<and> DEEPGRAM_API_KEY c' = DEEPGRAM_API_KEY c
      \<and> ELEVENLABS_API_KEY c' = ELEVENLABS_API_KEY c \<and> CARTESIA_API_KEY c' = CARTESIA_API_KEY c"
  then show "fst (validate_config c') = fst (validate_config c)"
    unfolding validate_config_cases by (elim conjE) (simp only:)
next
  assume a: "TTS_MODEL c = ''piper''
      \<and> TRANSCRIPTION_MODEL c \<in> set [''openai'', ''groq'', ''deepgram'', ''fastwhisperapi'', ''local'']
      \<and> RESPONSE_MODEL c \<in> set [''openai'', ''groq'', ''ollama'', ''local'']
      \<and> (\<forall>(field, v, k)\<in>set credential_rules. selects c field v \<longrightarrow> present c k)"
  let ?c = "c\<lparr>PIPER_SERVER_URL := u, LOCAL_MODEL_PATH := p\<rparr>"
  have d: "\<forall>d\<in>set provider_domains. in_domain ?c d"
    using a by (simp add: provider_domains_def in_domain_selection)
  have r: "\<forall>r\<in>set credential_rules. \<not> violated ?c r"
    using a by (simp add: credential_rules_def violated_def selects_selection present_credential)
  have "\<forall>x\<in>set (spec_checks ?c). x = None"
    using d r by (auto simp: spec_checks_def)
  then have "first_error (spec_checks ?c @ []) = first_error []"
    by (rule first_error_skip)
  then show "fst (validate_config ?c) = Inr ()"
    by (simp add: validate_config_spec spec_validate_def)
qed

text \<open>
  The \<^verbatim>\<open>piper\<close> selection with the server address absent and empty, and a registry
  that differs from the loaded one in two other fields.
\<close>

theorem unexamined_fields_witness:
  "fst (validate_config ((load_Config default_env)\<lparr>TTS_MODEL := ''piper'', PIPER_SERVER_URL := None,
      LOCAL_MODEL_PATH := None\<rparr>)) = Inr ()
   \<and> fst (validate_config ((load_Config default_env)\<lparr>TTS_MODEL := ''piper'', PIPER_SERVER_URL := Some [],
      LOCAL_MODEL_PATH := None\<rparr>)) = Inr ()
   \<and> fst (validate_config ((load_Config default_env)\<lparr>INPUT_AUDIO := ''in.wav'', TTS_PORT_LOCAL := 80\<rparr>))
     = fst (validate_config (load_Config default_env))"
proof -
  let ?c = "(load_Config default_env)\<lparr>TTS_MODEL := ''piper''\<rparr>"
  let ?e = "(load_Config default_env)\<lparr>INPUT_AUDIO := ''in.wav'', TTS_PORT_LOCAL := 80\<rparr>"
  have h: "TTS_MODEL ?c = ''piper''
      \<and> TRANSCRIPTION_MODEL ?c \<in> set [''openai'', ''groq'', ''deepgram'', ''fastwhisperapi'', ''local'']
      \<and> RESPONSE_MODEL ?c \<in> set [''openai'', ''groq'', ''ollama'', ''local'']
      \<and> (\<forall>(field, v, k)\<in>set credential_rules. selects ?c field v \<longrightarrow> present ?c k)"
    by (simp add: credential_rules_def selects_selection present_credential load_Config_def
        default_env_def)
  have g: "TRANSCRIPTION_MODEL ?e = TRANSCRIPTION_MODEL (load_Config default_env)
      \<and> RESPONSE_MODEL ?e = RESPONSE_MODEL (load_Config default_env)
      \<and> TTS_MODEL ?e = TTS_MODEL (load_Config default_env)
      \<and> OPENAI_API_KEY ?e = OPENAI_API_KEY (load_Config default_env)
      \<and> GROQ_API_KEY ?e = GROQ_API_KEY (load_Config default_env)
      \<and> DEEPGRAM_API_KEY ?e = DEEPGRAM_API_KEY (load_Config default_env)
      \<and> ELEVENLABS_API_KEY ?e = ELEVENLABS_API_KEY (load_Config default_env)
      \<and> CARTESIA_API_KEY ?e = CARTESIA_API_KEY (load_Config default_env)"
    by simp
  from unexamined_fields [where c = ?c and c' = ?c and u = None and p = None] h
  have 1: "fst (validate_config (?c\<lparr>PIPER_SERVER_URL := None, LOCAL_MODEL_PATH := None\<rparr>)) = Inr ()"
    by blast
  from unexamined_fields [where c = ?c and c' = ?c and u = "Some []" and p = None] h
  have 2: "fst (validate_config (?c\<lparr>PIPER_SERVER_URL := Some [], LOCAL_MODEL_PATH := None\<rparr>)) = Inr ()"
    by blast
  from unexamined_fields [where c = "load_Config default_env" and c' = ?e and u = None and p = None] g
  have 3: "fst (validate_config ?e) = fst (validate_config (load_Config default_env))"
    by blast
  from 1 2 3 show ?thesis
    by simp
qed

end
